theory Spec2Isabelle
  imports Main "HOL-Library.Word"
begin

unbundle bit_operations_syntax

section \<open>libcodepoint: the command-line front end (example.c) and the query engine it calls\<close>

text \<open>
  The repository's only source file is \<^verbatim>\<open>example.c\<close>, the front end. It includes
  \<^verbatim>\<open>codepoints.h\<close>, the generated query engine, which is not among the sources.
  The front end is embedded from its code, with the header's functions and macros taken as
  a parameter (the record \<open>codepoints_h\<close>); the part of the engine that two claims are
  about is modelled from the specification further below.
\<close>

subsection \<open>Machine types\<close>

text \<open>
  A code point is a 32-bit value (\<^verbatim>\<open>codepoint\<close>). A C \<^verbatim>\<open>int\<close> is 32 bits wide;
  \<^verbatim>\<open>printf("%d", x)\<close> prints its two's-complement reading \<open>sint x\<close>. A C
  \<^verbatim>\<open>long\<close> is 64 bits wide (LP64).
\<close>

type_synonym codepoint = "32 word"
type_synonym cint = "32 word"

definition LONG_MAX :: int where
  "LONG_MAX = 2 ^ 63 - 1"

definition LONG_MIN :: int where
  "LONG_MIN = - (2 ^ 63)"

subsection \<open>What example.c uses of codepoints.h\<close>

text \<open>
  The functions and the four flag macros of \<^verbatim>\<open>codepoints.h\<close> that \<^verbatim>\<open>main\<close> uses.
  Every function takes the code point; \<^verbatim>\<open>main\<close> prints each result with \<^verbatim>\<open>%d\<close> or
  tests it against zero, so each result is read as a C \<^verbatim>\<open>int\<close>.
\<close>

record codepoints_h =
  codepoint_tolower :: "codepoint \<Rightarrow> cint"
  codepoint_toupper :: "codepoint \<Rightarrow> cint"
  codepoint_totitle :: "codepoint \<Rightarrow> cint"
  codepoint_todigit :: "codepoint \<Rightarrow> cint"
  codepoint_islower :: "codepoint \<Rightarrow> cint"
  codepoint_isupper :: "codepoint \<Rightarrow> cint"
  codepoint_istitle :: "codepoint \<Rightarrow> cint"
  codepoint_isdigit :: "codepoint \<Rightarrow> cint"
  codepoint_isspace :: "codepoint \<Rightarrow> cint"
  codepoint_iscntrl :: "codepoint \<Rightarrow> cint"
  codepoint_ispunct :: "codepoint \<Rightarrow> cint"
  codepoint_isemoji :: "codepoint \<Rightarrow> cint"
  codepoint_isprint :: "codepoint \<Rightarrow> cint"
  codepoint_isalpha :: "codepoint \<Rightarrow> cint"
  codepoint_isalnum :: "codepoint \<Rightarrow> cint"
  codepoint_isvalid :: "codepoint \<Rightarrow> cint"
  codepoint_toflags :: "codepoint \<Rightarrow> cint"
  CODEPOINT_LINEBREAK :: cint
  CODEPOINT_CONNECTING :: cint
  CODEPOINT_FORMATTING :: cint
  CODEPOINT_COMBINING :: cint

subsection \<open>The C library functions main calls\<close>

text \<open>\<^verbatim>\<open>tolower\<close> in the "C" locale (the program never calls \<^verbatim>\<open>setlocale\<close>).\<close>

definition tolower_c :: "char \<Rightarrow> char" where
  "tolower_c c =
     (let n = (of_char c :: nat)
      in if 65 \<le> n \<and> n \<le> 90 then char_of (n + 32) else c)"

text \<open>\<^verbatim>\<open>isspace\<close> in the "C" locale: space, and \<^verbatim>\<open>\t \n \v \f \r\<close>.\<close>

definition isspace_c :: "char \<Rightarrow> bool" where
  "isspace_c c = (let n = (of_char c :: nat) in n = 32 \<or> (9 \<le> n \<and> n \<le> 13))"

text \<open>The value of a base-16 digit, \<open>None\<close> for any other character.\<close>

definition xdigit_val :: "char \<Rightarrow> nat option" where
  "xdigit_val c =
     (let n = (of_char c :: nat)
      in if 48 \<le> n \<and> n \<le> 57 then Some (n - 48)
         else if 97 \<le> n \<and> n \<le> 102 then Some (n - 87)
         else if 65 \<le> n \<and> n \<le> 70 then Some (n - 55)
         else None)"

definition is_xdigit :: "char \<Rightarrow> bool" where
  "is_xdigit c = (xdigit_val c \<noteq> None)"

text \<open>
  \<^verbatim>\<open>strtol(s, NULL, 16)\<close> (ISO C): skip leading white space, take an optional sign,
  take an optional \<^verbatim>\<open>0x\<close>/\<^verbatim>\<open>0X\<close> when a hex digit follows it, then read hex digits up to
  the first character that is not one. No digits give 0; a value out of the range of \<^verbatim>\<open>long\<close> gives
  \<^verbatim>\<open>LONG_MAX\<close> or \<^verbatim>\<open>LONG_MIN\<close>. The end pointer is \<^verbatim>\<open>NULL\<close>, so what follows the
  digits is never looked at.
\<close>

definition strtol_sign :: "string \<Rightarrow> bool \<times> string" where
  "strtol_sign s =
     (case s of
        [] \<Rightarrow> (False, [])
      | c # r \<Rightarrow> if c = CHR ''-'' then (True, r)
                 else if c = CHR ''+'' then (False, r)
                 else (False, s))"

definition strtol_0x :: "string \<Rightarrow> string" where
  "strtol_0x s =
     (case s of
        z # x # d # r \<Rightarrow>
          if z = CHR ''0'' \<and> (x = CHR ''x'' \<or> x = CHR ''X'') \<and> is_xdigit d then d # r else s
      | _ \<Rightarrow> s)"

fun strtol_digits :: "int \<Rightarrow> string \<Rightarrow> int" where
  "strtol_digits acc [] = acc"
| "strtol_digits acc (c # cs) =
     (case xdigit_val c of
        None \<Rightarrow> acc
      | Some d \<Rightarrow> strtol_digits (acc * 16 + int d) cs)"

definition strtol16 :: "string \<Rightarrow> int" where
  "strtol16 s =
     (let (neg, s2) = strtol_sign (dropWhile isspace_c s);
          v = strtol_digits 0 (strtol_0x s2)
      in if neg then max LONG_MIN (- v) else min LONG_MAX v)"

text \<open>\<^verbatim>\<open>printf("%d", x)\<close>: the signed decimal numeral of a C \<^verbatim>\<open>int\<close>.\<close>

definition digit_char :: "nat \<Rightarrow> char" where
  "digit_char d = char_of (48 + d)"

function show_nat :: "nat \<Rightarrow> string" where
  "show_nat n = (if n < 10 then [digit_char n] else show_nat (n div 10) @ [digit_char (n mod 10)])"
  by pat_completeness auto
termination
  by (relation "measure id") auto

declare show_nat.simps [simp del]

definition printf_d :: "cint \<Rightarrow> string" where
  "printf_d x = (if sint x < 0 then CHR ''-'' # show_nat (nat (- sint x)) else show_nat (nat (sint x)))"

text \<open>The C idiom \<^verbatim>\<open>x ? "true" : "false"\<close>.\<close>

definition true_false :: "cint \<Rightarrow> string" where
  "true_false x = (if x \<noteq> 0 then ''true'' else ''false'')"

subsection \<open>example.c\<close>

text \<open>
  What an invocation does, as far as it can be observed: the text written to standard
  output and the exit status.
\<close>

record outcome =
  stdout :: string
  exit_status :: int

text \<open>\<^verbatim>\<open>print_usage_and_quit\<close>: \<^verbatim>\<open>puts\<close> appends a newline; \<^verbatim>\<open>exit(1)\<close> ends the program.\<close>

definition print_usage_and_quit :: outcome where
  "print_usage_and_quit =
     \<lparr>stdout = ''usage: unicode [--json] codepoint'' @ ''\<newline>'', exit_status = 1\<rparr>"

text \<open>
  The test \<^verbatim>\<open>argv[i][0] == '-'\<close>. An empty argument has the terminating NUL there, which
  is not a dash.
\<close>

definition is_option :: "string \<Rightarrow> bool" where
  "is_option a = (case a of [] \<Rightarrow> False | c # _ \<Rightarrow> c = CHR ''-'')"

text \<open>
  The loop \<^verbatim>\<open>for (int i = 1; i < argc; i++)\<close> over the state
  \<open>(codepoint_argument_index, output_json)\<close>; \<open>argc\<close> is the length of \<open>argv\<close>.
\<close>

function scan_args :: "string list \<Rightarrow> nat \<Rightarrow> int \<times> bool \<Rightarrow> int \<times> bool" where
  "scan_args argv i (codepoint_argument_index, output_json) =
     (if i < length argv then
        (if is_option (argv ! i) then
           (if argv ! i = ''--json''
            then scan_args argv (i + 1) (codepoint_argument_index, True)
            else scan_args argv (i + 1) (codepoint_argument_index, output_json))
         else scan_args argv (i + 1) (int i, output_json))
      else (codepoint_argument_index, output_json))"
  by pat_completeness auto
termination
  by (relation "measure (\<lambda>(argv, i, st). length argv - i)") auto

declare scan_args.simps [simp del]

text \<open>
  Lines 68 to 77: advance past a leading \<^verbatim>\<open>U\<close> or \<^verbatim>\<open>u\<close>, and past a \<^verbatim>\<open>+\<close> right
  after it.
\<close>

definition skip_u_plus :: "string \<Rightarrow> string" where
  "skip_u_plus s =
     (case s of
        [] \<Rightarrow> s
      | c # r \<Rightarrow>
          if tolower_c c = CHR ''u''
          then (case r of [] \<Rightarrow> r | p # r' \<Rightarrow> if p = CHR ''+'' then r' else r)
          else s)"

text \<open>
  Line 81: \<^verbatim>\<open>const codepoint character = strtol(unicode_codepoint, NULL, 16)\<close>. The
  \<^verbatim>\<open>long\<close> is converted to the 32-bit code point by truncation.
\<close>

definition parse_codepoint :: "string \<Rightarrow> codepoint" where
  "parse_codepoint a = word_of_int (strtol16 (skip_u_plus a))"

text \<open>Lines 85 to 106: the twenty \<^verbatim>\<open>printf\<close> calls of the JSON branch, in order.\<close>

definition emit_json :: "codepoints_h \<Rightarrow> codepoint \<Rightarrow> string" where
  \<open>emit_json h character =
     ''{'' @
     ''"toLowerCase":'' @ printf_d (codepoint_tolower h character) @ '','' @
     ''"toUpperCase":'' @ printf_d (codepoint_toupper h character) @ '','' @
     ''"toTitleCase":'' @ printf_d (codepoint_totitle h character) @ '','' @
     ''"toDigit":'' @ printf_d (codepoint_todigit h character) @ '','' @
     ''"isLowerCase":'' @ true_false (codepoint_islower h character) @ '','' @
     ''"isUpperCase":'' @ true_false (codepoint_isupper h character) @ '','' @
     ''"isTitleCase":'' @ true_false (codepoint_istitle h character) @ '','' @
     ''"isDigit":'' @ true_false (codepoint_isdigit h character) @ '','' @
     ''"isSpaceChar":'' @ true_false (codepoint_isspace h character) @ '','' @
     ''"isLineBreak":'' @ true_false (codepoint_toflags h character AND CODEPOINT_LINEBREAK h) @ '','' @
     ''"isISOControl":'' @ true_false (codepoint_iscntrl h character) @ '','' @
     ''"isPunctuation":'' @ true_false (codepoint_ispunct h character) @ '','' @
     ''"isConnectingChar":'' @ true_false (codepoint_toflags h character AND CODEPOINT_CONNECTING h) @ '','' @
     ''"isFormattingChar":'' @ true_false (codepoint_toflags h character AND CODEPOINT_FORMATTING h) @ '','' @
     ''"isCombiningChar":'' @ true_false (codepoint_toflags h character AND CODEPOINT_COMBINING h) @ '','' @
     ''"isEmoji":'' @ true_false (codepoint_isemoji h character) @ '','' @
     ''"isPrintable":'' @ true_false (codepoint_isprint h character) @ '','' @
     ''"isAlpha":'' @ true_false (codepoint_isalpha h character) @ '','' @
     ''"isAlphaNumeric":'' @ true_false (codepoint_isalnum h character) @ '','' @
     ''"isValidCodePoint":'' @ true_false (codepoint_isvalid h character) @
     ''}''\<close>

text \<open>Lines 110 to 125: the sixteen \<^verbatim>\<open>printf\<close> calls of the text branch, in order.\<close>

definition emit_text :: "codepoints_h \<Rightarrow> codepoint \<Rightarrow> string" where
  "emit_text h character =
     ''toLowerCase: '' @ printf_d (codepoint_tolower h character) @ ''\<newline>'' @
     ''toUpperCase: '' @ printf_d (codepoint_toupper h character) @ ''\<newline>'' @
     ''toTitleCase: '' @ printf_d (codepoint_totitle h character) @ ''\<newline>'' @
     ''toDigit: '' @ printf_d (codepoint_todigit h character) @ ''\<newline>'' @
     ''isLowerCase: '' @ printf_d (codepoint_islower h character) @ ''\<newline>'' @
     ''isUpperCase: '' @ printf_d (codepoint_isupper h character) @ ''\<newline>'' @
     ''isTitleCase: '' @ printf_d (codepoint_istitle h character) @ ''\<newline>'' @
     ''isDigit: '' @ printf_d (codepoint_isdigit h character) @ ''\<newline>'' @
     ''isSpaceChar: '' @ printf_d (codepoint_isspace h character) @ ''\<newline>'' @
     ''isISOControl: '' @ printf_d (codepoint_iscntrl h character) @ ''\<newline>'' @
     ''isPunctuation: '' @ printf_d (codepoint_ispunct h character) @ ''\<newline>'' @
     ''isEmoji: '' @ printf_d (codepoint_isemoji h character) @ ''\<newline>'' @
     ''isPrintable: '' @ printf_d (codepoint_isprint h character) @ ''\<newline>'' @
     ''isAlpha: '' @ printf_d (codepoint_isalpha h character) @ ''\<newline>'' @
     ''isAlphaNumeric: '' @ printf_d (codepoint_isalnum h character) @ ''\<newline>'' @
     ''isValidCodePoint: '' @ printf_d (codepoint_isvalid h character) @ ''\<newline>''"

text \<open>
  \<^verbatim>\<open>main\<close>. \<open>argv\<close> holds the program name and the arguments, so \<open>argc\<close> is its length.
\<close>

definition main :: "codepoints_h \<Rightarrow> string list \<Rightarrow> outcome" where
  "main h argv =
     (if length argv < 2 then print_usage_and_quit
      else
        let (codepoint_argument_index, output_json) = scan_args argv 1 (- 1, False)
        in if codepoint_argument_index < 0 then print_usage_and_quit
           else
             let unicode_codepoint = argv ! nat codepoint_argument_index;
                 character = parse_codepoint unicode_codepoint
             in \<lparr>stdout = (if output_json then emit_json h character else emit_text h character),
                 exit_status = 0\<rparr>)"

subsection \<open>Notions the properties are stated with\<close>

text \<open>
  The arguments that are not options, in the order given: each is taken for a code point
  by the loop of \<^verbatim>\<open>main\<close>.
\<close>

definition codepoint_args :: "string list \<Rightarrow> string list" where
  "codepoint_args argv = filter (\<lambda>a. \<not> is_option a) (tl argv)"

text \<open>
  What a numeral denotes in base \<open>b\<close>, in positional notation: a digit followed by \<open>n\<close>
  more digits weighs \<open>b ^ n\<close>.
\<close>

fun numeral_value :: "nat \<Rightarrow> string \<Rightarrow> nat" where
  "numeral_value b [] = 0"
| "numeral_value b (c # cs) =
     (case xdigit_val c of None \<Rightarrow> 0 | Some d \<Rightarrow> d) * b ^ length cs + numeral_value b cs"

definition hex_value :: "string \<Rightarrow> nat" where
  "hex_value ds = numeral_value 16 ds"

definition dec_value :: "string \<Rightarrow> nat" where
  "dec_value ds = numeral_value 10 ds"

text \<open>
  An argument with no numeral where the front end looks for one: after the optional
  \<^verbatim>\<open>U\<close>/\<^verbatim>\<open>u\<close> and \<^verbatim>\<open>+\<close>, and after the white space and the sign that
  \<^verbatim>\<open>strtol\<close> skips, the text is empty or starts with a character that is not a hex digit.
\<close>

definition no_numeral :: "string \<Rightarrow> bool" where
  "no_numeral a =
     (case snd (strtol_sign (dropWhile isspace_c (skip_u_plus a))) of
        [] \<Rightarrow> True
      | c # _ \<Rightarrow> \<not> is_xdigit c)"

text \<open>
  The attributes each branch reports, as (name, printed value) pairs in the order of the
  \<^verbatim>\<open>printf\<close> calls, and how each branch lays them out: the JSON branch as
  \<^verbatim>\<open>"name":value\<close> members separated by commas inside braces, the text branch as
  \<^verbatim>\<open>name: value\<close> lines. Lemmas \<open>emit_json_members\<close> and \<open>emit_text_lines\<close> below show
  that this is the output of \<open>emit_json\<close> and \<open>emit_text\<close>.
\<close>

definition json_attrs :: "codepoints_h \<Rightarrow> codepoint \<Rightarrow> (string \<times> string) list" where
  "json_attrs h character =
     [(''toLowerCase'', printf_d (codepoint_tolower h character)),
      (''toUpperCase'', printf_d (codepoint_toupper h character)),
      (''toTitleCase'', printf_d (codepoint_totitle h character)),
      (''toDigit'', printf_d (codepoint_todigit h character)),
      (''isLowerCase'', true_false (codepoint_islower h character)),
      (''isUpperCase'', true_false (codepoint_isupper h character)),
      (''isTitleCase'', true_false (codepoint_istitle h character)),
      (''isDigit'', true_false (codepoint_isdigit h character)),
      (''isSpaceChar'', true_false (codepoint_isspace h character)),
      (''isLineBreak'', true_false (codepoint_toflags h character AND CODEPOINT_LINEBREAK h)),
      (''isISOControl'', true_false (codepoint_iscntrl h character)),
      (''isPunctuation'', true_false (codepoint_ispunct h character)),
      (''isConnectingChar'', true_false (codepoint_toflags h character AND CODEPOINT_CONNECTING h)),
      (''isFormattingChar'', true_false (codepoint_toflags h character AND CODEPOINT_FORMATTING h)),
      (''isCombiningChar'', true_false (codepoint_toflags h character AND CODEPOINT_COMBINING h)),
      (''isEmoji'', true_false (codepoint_isemoji h character)),
      (''isPrintable'', true_false (codepoint_isprint h character)),
      (''isAlpha'', true_false (codepoint_isalpha h character)),
      (''isAlphaNumeric'', true_false (codepoint_isalnum h character)),
      (''isValidCodePoint'', true_false (codepoint_isvalid h character))]"

definition text_attrs :: "codepoints_h \<Rightarrow> codepoint \<Rightarrow> (string \<times> string) list" where
  "text_attrs h character =
     [(''toLowerCase'', printf_d (codepoint_tolower h character)),
      (''toUpperCase'', printf_d (codepoint_toupper h character)),
      (''toTitleCase'', printf_d (codepoint_totitle h character)),
      (''toDigit'', printf_d (codepoint_todigit h character)),
      (''isLowerCase'', printf_d (codepoint_islower h character)),
      (''isUpperCase'', printf_d (codepoint_isupper h character)),
      (''isTitleCase'', printf_d (codepoint_istitle h character)),
      (''isDigit'', printf_d (codepoint_isdigit h character)),
      (''isSpaceChar'', printf_d (codepoint_isspace h character)),
      (''isISOControl'', printf_d (codepoint_iscntrl h character)),
      (''isPunctuation'', printf_d (codepoint_ispunct h character)),
      (''isEmoji'', printf_d (codepoint_isemoji h character)),
      (''isPrintable'', printf_d (codepoint_isprint h character)),
      (''isAlpha'', printf_d (codepoint_isalpha h character)),
      (''isAlphaNumeric'', printf_d (codepoint_isalnum h character)),
      (''isValidCodePoint'', printf_d (codepoint_isvalid h character))]"

definition json_member :: "string \<times> string \<Rightarrow> string" where
  "json_member kv = [CHR 0x22] @ fst kv @ [CHR 0x22] @ '':'' @ snd kv"

fun comma_separated :: "string list \<Rightarrow> string" where
  "comma_separated [] = []"
| "comma_separated [x] = x"
| "comma_separated (x # y # ys) = x @ '','' @ comma_separated (y # ys)"

definition json_object :: "(string \<times> string) list \<Rightarrow> string" where
  "json_object kvs = ''{'' @ comma_separated (map json_member kvs) @ ''}''"

definition text_line :: "string \<times> string \<Rightarrow> string" where
  "text_line kv = fst kv @ '': '' @ snd kv @ ''\<newline>''"

definition flag_attrs :: "string list" where
  "flag_attrs = [''isLineBreak'', ''isConnectingChar'', ''isFormattingChar'', ''isCombiningChar'']"

subsection \<open>The query engine of codepoints.h\<close>

text \<open>
  The generated header \<^verbatim>\<open>codepoints.h\<close> (range table, exception table and the query
  functions) is not among the sources. Every definition of this subsection is modelled
  from sections 3, 4.2 and 6 of the specification.
\<close>

text \<open>
  Modelled from the spec: the closed set of category tags of a range (the header's own
  enumeration is missing).
\<close>

datatype category =
  Letter_lower | Letter_upper | Letter_title | Letter_other | Digit | Space | Control
| Punctuation | Unassigned | Surrogate | Other

text \<open>
  Modelled from the spec: \<open>caseDelta\<close> is either a uniform offset for the lower, upper and
  title forms, or a marker pointing into the exception table. Offsets are 32-bit and
  signed; adding one to a 32-bit code point is addition modulo \<open>2 ^ 32\<close>.
\<close>

datatype case_delta = Uniform "32 word" "32 word" "32 word" | Exception_marker

text \<open>
  Modelled from the spec: \<open>CodepointRange\<close>, the unit of the range table (the header's
  table is missing): inclusive bounds, category, flag bits, optional digit value, case
  delta.
\<close>

record CodepointRange =
  range_start :: codepoint
  range_end :: codepoint
  category :: category
  flags :: "16 word"
  digitValue :: "cint option"
  caseDelta :: case_delta

text \<open>
  Modelled from the spec: an entry of the exception table (missing with the header), the
  exact lower, upper and title forms of one code point.
\<close>

record exception_entry =
  exc_lower :: codepoint
  exc_upper :: codepoint
  exc_title :: codepoint

text \<open>
  Modelled from the spec: the two tables the engine holds (missing with the header), the
  exception table as a list of (code point, entry) pairs.
\<close>

record tables =
  range_table :: "CodepointRange list"
  exception_table :: "(codepoint \<times> exception_entry) list"

text \<open>
  Modelled from the spec: the flag bit set. The spec names the eight flags and not their
  bit positions; they are numbered here in the order the spec lists them.
\<close>

definition FLAG_LINEBREAK :: "16 word" where "FLAG_LINEBREAK = 1"
definition FLAG_CONNECTING :: "16 word" where "FLAG_CONNECTING = 2"
definition FLAG_FORMATTING :: "16 word" where "FLAG_FORMATTING = 4"
definition FLAG_COMBINING :: "16 word" where "FLAG_COMBINING = 8"
definition FLAG_EMOJI :: "16 word" where "FLAG_EMOJI = 16"
definition FLAG_PRINTABLE :: "16 word" where "FLAG_PRINTABLE = 32"
definition FLAG_ALPHA :: "16 word" where "FLAG_ALPHA = 64"
definition FLAG_ALNUM :: "16 word" where "FLAG_ALNUM = 128"

text \<open>
  Modelled from the spec: binary search for the greatest range with \<open>start \<le> cp\<close>.
  \<open>bsearch tbl cp lo hi\<close> narrows the interval \<open>[lo, hi)\<close> and returns the number of
  ranges that start at or below \<open>cp\<close>.
\<close>

function bsearch :: "CodepointRange list \<Rightarrow> codepoint \<Rightarrow> nat \<Rightarrow> nat \<Rightarrow> nat" where
  "bsearch tbl cp lo hi =
     (if lo < hi then
        (let mid = (lo + hi) div 2
         in if range_start (tbl ! mid) \<le> cp then bsearch tbl cp (mid + 1) hi
            else bsearch tbl cp lo mid)
      else lo)"
  by pat_completeness auto
termination
  by (relation "measure (\<lambda>(tbl, cp, lo, hi). hi - lo)") auto

declare bsearch.simps [simp del]

text \<open>
  Modelled from the spec: \<open>classify\<close>. A value above \<open>0x10FFFF\<close> is never looked up; a
  code point that no range covers is a gap, \<open>None\<close> (implicitly unassigned).
\<close>

definition classify :: "CodepointRange list \<Rightarrow> codepoint \<Rightarrow> CodepointRange option" where
  "classify tbl cp =
     (if 0x10FFFF < cp then None
      else
        let n = bsearch tbl cp 0 (length tbl)
        in if n = 0 then None
           else let r = tbl ! (n - 1) in if cp \<le> range_end r then Some r else None)"

text \<open>
  Modelled from the spec: the three case directions of \<open>toLower\<close>, \<open>toUpper\<close> and
  \<open>toTitle\<close> (the header's functions are missing).
\<close>

datatype direction = To_lower | To_upper | To_title

text \<open>
  Modelled from the spec: the delta of a range for a direction, when it is uniform, and the
  recorded form of an exception entry for a direction.
\<close>

fun delta_of :: "direction \<Rightarrow> case_delta \<Rightarrow> 32 word option" where
  "delta_of d Exception_marker = None"
| "delta_of To_lower (Uniform kl ku kt) = Some kl"
| "delta_of To_upper (Uniform kl ku kt) = Some ku"
| "delta_of To_title (Uniform kl ku kt) = Some kt"

fun recorded :: "direction \<Rightarrow> exception_entry \<Rightarrow> codepoint" where
  "recorded To_lower e = exc_lower e"
| "recorded To_upper e = exc_upper e"
| "recorded To_title e = exc_title e"

text \<open>
  Modelled from the spec: the case mappings (the header's \<^verbatim>\<open>codepoint_tolower\<close>,
  \<^verbatim>\<open>codepoint_toupper\<close> and \<^verbatim>\<open>codepoint_totitle\<close> are missing). "If \<open>cp\<close>'s range has a
  uniform case delta, apply it only when the category indicates a cased letter of the
  relevant case direction; if the code point is listed in the Exception Table, return its
  exact recorded value; otherwise return \<open>cp\<close> unchanged." The spec does not say which
  categories are cased letters of a direction, so that test is the parameter \<open>relevant\<close>:
  what is proved below holds for every reading of the phrase.
\<close>

definition uniform_delta ::
  "(direction \<Rightarrow> category \<Rightarrow> bool) \<Rightarrow> tables \<Rightarrow> direction \<Rightarrow> codepoint \<Rightarrow> 32 word option" where
  "uniform_delta relevant T d cp =
     (case classify (range_table T) cp of
        None \<Rightarrow> None
      | Some r \<Rightarrow> if relevant d (category r) then delta_of d (caseDelta r) else None)"

definition case_map ::
  "(direction \<Rightarrow> category \<Rightarrow> bool) \<Rightarrow> tables \<Rightarrow> direction \<Rightarrow> codepoint \<Rightarrow> codepoint" where
  "case_map relevant T d cp =
     (case uniform_delta relevant T d cp of
        Some k \<Rightarrow> cp + k
      | None \<Rightarrow>
          (case map_of (exception_table T) cp of
             Some e \<Rightarrow> recorded d e
           | None \<Rightarrow> cp))"

definition toLower :: "(direction \<Rightarrow> category \<Rightarrow> bool) \<Rightarrow> tables \<Rightarrow> codepoint \<Rightarrow> codepoint" where
  "toLower relevant T cp = case_map relevant T To_lower cp"

definition toUpper :: "(direction \<Rightarrow> category \<Rightarrow> bool) \<Rightarrow> tables \<Rightarrow> codepoint \<Rightarrow> codepoint" where
  "toUpper relevant T cp = case_map relevant T To_upper cp"

definition toTitle :: "(direction \<Rightarrow> category \<Rightarrow> bool) \<Rightarrow> tables \<Rightarrow> codepoint \<Rightarrow> codepoint" where
  "toTitle relevant T cp = case_map relevant T To_title cp"

text \<open>
  Modelled from the spec: "a defined case mapping" of a code point in a direction, which
  the tables record in one of two ways: a uniform delta that applies, or an entry of the
  exception table.
\<close>

definition has_case_mapping ::
  "(direction \<Rightarrow> category \<Rightarrow> bool) \<Rightarrow> tables \<Rightarrow> direction \<Rightarrow> codepoint \<Rightarrow> bool" where
  "has_case_mapping relevant T d cp =
     (uniform_delta relevant T d cp \<noteq> None \<or> map_of (exception_table T) cp \<noteq> None)"

text \<open>
  Modelled from the spec: \<open>isValid\<close> (the header's \<^verbatim>\<open>codepoint_isvalid\<close> is missing), "true iff \<open>0 \<le> cp \<le> 0x10FFFF\<close> and \<open>cp\<close> does not
  fall in the surrogate range", on the 32-bit value with the unsigned order of words.
\<close>

definition isValid :: "codepoint \<Rightarrow> bool" where
  "isValid cp = (0 \<le> cp \<and> cp \<le> 0x10FFFF \<and> \<not> (0xD800 \<le> cp \<and> cp \<le> 0xDFFF))"

text \<open>
  Modelled from the spec: the other queries (missing with the header), each a function of
  \<open>classify\<close>. A gap has category unassigned, no flags and no digit value; "not a digit"
  is the sentinel \<open>- 1\<close>. The predicates on letters, digits, space, control and
  punctuation read the category; those on emoji, printable, alpha and alnum read the flag.
\<close>

definition category_of :: "tables \<Rightarrow> codepoint \<Rightarrow> category" where
  "category_of T cp = (case classify (range_table T) cp of None \<Rightarrow> Unassigned | Some r \<Rightarrow> category r)"

definition toFlags :: "tables \<Rightarrow> codepoint \<Rightarrow> 16 word" where
  "toFlags T cp = (case classify (range_table T) cp of None \<Rightarrow> 0 | Some r \<Rightarrow> flags r)"

definition toDigit :: "tables \<Rightarrow> codepoint \<Rightarrow> cint" where
  "toDigit T cp =
     (case classify (range_table T) cp of
        None \<Rightarrow> - 1
      | Some r \<Rightarrow>
          if category r = Digit then (case digitValue r of None \<Rightarrow> - 1 | Some v \<Rightarrow> v) else - 1)"

definition has_category :: "tables \<Rightarrow> category \<Rightarrow> codepoint \<Rightarrow> cint" where
  "has_category T k cp = of_bool (category_of T cp = k)"

definition has_flag :: "tables \<Rightarrow> 16 word \<Rightarrow> codepoint \<Rightarrow> cint" where
  "has_flag T f cp = of_bool (toFlags T cp AND f \<noteq> 0)"

text \<open>
  Modelled from the spec: the engine over given tables, in the shape of the missing header
  that \<^verbatim>\<open>main\<close> is compiled against. A predicate returns 1 or 0; the four flag macros are
  the bits of \<open>toFlags\<close>.
\<close>

definition engine :: "(direction \<Rightarrow> category \<Rightarrow> bool) \<Rightarrow> tables \<Rightarrow> codepoints_h" where
  "engine relevant T =
     \<lparr>codepoint_tolower = toLower relevant T,
      codepoint_toupper = toUpper relevant T,
      codepoint_totitle = toTitle relevant T,
      codepoint_todigit = toDigit T,
      codepoint_islower = has_category T Letter_lower,
      codepoint_isupper = has_category T Letter_upper,
      codepoint_istitle = has_category T Letter_title,
      codepoint_isdigit = has_category T Digit,
      codepoint_isspace = has_category T Space,
      codepoint_iscntrl = has_category T Control,
      codepoint_ispunct = has_category T Punctuation,
      codepoint_isemoji = has_flag T FLAG_EMOJI,
      codepoint_isprint = has_flag T FLAG_PRINTABLE,
      codepoint_isalpha = has_flag T FLAG_ALPHA,
      codepoint_isalnum = has_flag T FLAG_ALNUM,
      codepoint_isvalid = (\<lambda>cp. of_bool (isValid cp)),
      codepoint_toflags = (\<lambda>cp. ucast (toFlags T cp)),
      CODEPOINT_LINEBREAK = ucast FLAG_LINEBREAK,
      CODEPOINT_CONNECTING = ucast FLAG_CONNECTING,
      CODEPOINT_FORMATTING = ucast FLAG_FORMATTING,
      CODEPOINT_COMBINING = ucast FLAG_COMBINING\<rparr>"

subsection \<open>A small table for concrete runs\<close>

text \<open>
  Modelled from the spec: tables in the shape the spec gives them, with six ranges picked
  for the concrete runs below (the generated table is missing): the line feed, the digit 7,
  \<open>A\<close> to \<open>Z\<close>, \<open>a\<close> to \<open>z\<close>, the titlecase letter U+01C5 with its entry in the
  exception table, and the surrogates. Every cased letter counts as relevant in every
  direction.
\<close>

definition sample_relevant :: "direction \<Rightarrow> category \<Rightarrow> bool" where
  "sample_relevant d k = (k = Letter_lower \<or> k = Letter_upper \<or> k = Letter_title)"

definition sample_tables :: tables where
  "sample_tables =
     \<lparr>range_table =
        [\<lparr>range_start = 0x0A, range_end = 0x0A, category = Control,
          flags = FLAG_LINEBREAK, digitValue = None, caseDelta = Uniform 0 0 0\<rparr>,
         \<lparr>range_start = 0x37, range_end = 0x37, category = Digit,
          flags = FLAG_PRINTABLE OR FLAG_ALNUM, digitValue = Some 7, caseDelta = Uniform 0 0 0\<rparr>,
         \<lparr>range_start = 0x41, range_end = 0x5A, category = Letter_upper,
          flags = FLAG_PRINTABLE OR FLAG_ALPHA OR FLAG_ALNUM, digitValue = None,
          caseDelta = Uniform 32 0 0\<rparr>,
         \<lparr>range_start = 0x61, range_end = 0x7A, category = Letter_lower,
          flags = FLAG_PRINTABLE OR FLAG_ALPHA OR FLAG_ALNUM, digitValue = None,
          caseDelta = Uniform 0 (- 32) (- 32)\<rparr>,
         \<lparr>range_start = 0x1C5, range_end = 0x1C5, category = Letter_title,
          flags = FLAG_PRINTABLE OR FLAG_ALPHA OR FLAG_ALNUM, digitValue = None,
          caseDelta = Exception_marker\<rparr>,
         \<lparr>range_start = 0xD800, range_end = 0xDFFF, category = Surrogate,
          flags = 0, digitValue = None, caseDelta = Uniform 0 0 0\<rparr>],
      exception_table =
        [(0x1C5, \<lparr>exc_lower = 0x1C6, exc_upper = 0x1C4, exc_title = 0x1C5\<rparr>)]\<rparr>"

definition sample_engine :: codepoints_h where
  "sample_engine = engine sample_relevant sample_tables"

section \<open>Properties\<close>

subsection \<open>The argument loop\<close>

lemma is_option_json: "is_option ''--json''"
  by (simp add: is_option_def)

lemma scan_args_json:
  "snd (scan_args argv i (idx, js)) = (js \<or> ''--json'' \<in> set (drop i argv))"
proof (induction argv i "(idx, js)" arbitrary: idx js rule: scan_args.induct)
  case (1 argv i idx js)
  show ?case
  proof (cases "i < length argv")
    case True
    then have d: "drop i argv = argv ! i # drop (i + 1) argv"
      by (simp add: Cons_nth_drop_Suc)
    from True 1 show ?thesis
      by (subst scan_args.simps) (auto simp: d is_option_json)
  next
    case False
    then show ?thesis
      by (subst scan_args.simps) simp
  qed
qed

lemma scan_args_none:
  "filter (\<lambda>a. \<not> is_option a) (drop i argv) = [] \<Longrightarrow> fst (scan_args argv i (idx, js)) = idx"
proof (induction argv i "(idx, js)" arbitrary: idx js rule: scan_args.induct)
  case (1 argv i idx js)
  show ?case
  proof (cases "i < length argv")
    case True
    then have d: "drop i argv = argv ! i # drop (i + 1) argv"
      by (simp add: Cons_nth_drop_Suc)
    from True 1 show ?thesis
      by (subst scan_args.simps) (auto simp: d split: if_splits)
  next
    case False
    then show ?thesis
      by (subst scan_args.simps) simp
  qed
qed

lemma scan_args_last:
  "filter (\<lambda>a. \<not> is_option a) (drop i argv) \<noteq> [] \<Longrightarrow>
   0 \<le> fst (scan_args argv i (idx, js)) \<and>
   nat (fst (scan_args argv i (idx, js))) < length argv \<and>
   argv ! nat (fst (scan_args argv i (idx, js))) = last (filter (\<lambda>a. \<not> is_option a) (drop i argv))"
proof (induction argv i "(idx, js)" arbitrary: idx js rule: scan_args.induct)
  case (1 argv i idx js)
  show ?case
  proof (cases "i < length argv")
    case True
    then have d: "drop i argv = argv ! i # drop (i + 1) argv"
      by (simp add: Cons_nth_drop_Suc)
    show ?thesis
    proof (cases "is_option (argv ! i)")
      case opt: True
      with 1 True d show ?thesis
        by (subst (1 2 3) scan_args.simps) (auto split: if_splits)
    next
      case nonopt: False
      show ?thesis
      proof (cases "filter (\<lambda>a. \<not> is_option a) (drop (i + 1) argv) = []")
        case True
        with \<open>i < length argv\<close> nonopt d show ?thesis
          by (subst (1 2 3) scan_args.simps) (simp add: scan_args_none)
      next
        case False
        with 1 \<open>i < length argv\<close> nonopt d show ?thesis
          by (subst (1 2 3) scan_args.simps) (auto split: if_splits)
      qed
    qed
  next
    case False
    with 1 show ?thesis by simp
  qed
qed

lemma main_eq:
  "main h argv =
     (if codepoint_args argv = [] then print_usage_and_quit
      else \<lparr>stdout =
              (if ''--json'' \<in> set (tl argv)
               then emit_json h (parse_codepoint (last (codepoint_args argv)))
               else emit_text h (parse_codepoint (last (codepoint_args argv)))),
            exit_status = 0\<rparr>)"
proof (cases "length argv < 2")
  case True
  then have "tl argv = []"
    by (cases argv) auto
  with True show ?thesis
    by (simp add: main_def codepoint_args_def)
next
  case False
  obtain k j where s: "scan_args argv 1 (- 1, False) = (k, j)"
    by (cases "scan_args argv 1 (- 1, False)")
  have j: "j = (''--json'' \<in> set (tl argv))"
    using scan_args_json [of argv 1 "- 1" False] s by (simp add: drop_Suc)
  show ?thesis
  proof (cases "codepoint_args argv = []")
    case True
    then have "k = - 1"
      using scan_args_none [of 1 argv "- 1" False] s by (simp add: codepoint_args_def drop_Suc)
    with False True s show ?thesis
      by (simp add: main_def)
  next
    case nonempty: False
    then have "0 \<le> k \<and> argv ! nat k = last (codepoint_args argv)"
      using scan_args_last [of 1 argv "- 1" False] s by (simp add: codepoint_args_def drop_Suc)
    with False nonempty s j show ?thesis
      by (simp add: main_def)
  qed
qed

lemma codepoint_args_empty_iff: "codepoint_args argv = [] \<longleftrightarrow> list_all is_option (tl argv)"
  by (simp add: codepoint_args_def filter_empty_conv list_all_iff)

lemma codepoint_args_nonempty_iff: "codepoint_args argv \<noteq> [] \<longleftrightarrow> list_ex (\<lambda>a. \<not> is_option a) (tl argv)"
  by (simp add: codepoint_args_def filter_empty_conv list_ex_iff)

subsection \<open>Reading the numeral\<close>

lemma xdigit_not_space: "is_xdigit c \<Longrightarrow> \<not> isspace_c c"
  by (auto simp: is_xdigit_def xdigit_val_def isspace_c_def Let_def split: if_splits)

lemma not_xdigit_chars [simp]:
  "\<not> is_xdigit CHR ''-''" "\<not> is_xdigit CHR ''+''" "\<not> is_xdigit CHR ''x''"
  "\<not> is_xdigit CHR ''X''" "\<not> is_xdigit CHR ''u''" "\<not> is_xdigit CHR ''U''"
  by (simp_all add: is_xdigit_def xdigit_val_def)

lemma tolower_c_u: "tolower_c c = CHR ''u'' \<longleftrightarrow> c = CHR ''u'' \<or> c = CHR ''U''"
proof
  assume "tolower_c c = CHR ''u''"
  then have "(of_char (tolower_c c) :: nat) = 117" by simp
  then have "(of_char c :: nat) = of_char CHR ''u'' \<or> (of_char c :: nat) = of_char CHR ''U''"
    by (auto simp: tolower_c_def Let_def split: if_splits)
  then show "c = CHR ''u'' \<or> c = CHR ''U''"
    by (simp only: of_char_eq_iff)
next
  have "char_of (117 :: nat) = CHR ''u''"
    by (rule of_char_eqI [where ?'a = nat]) simp
  moreover assume "c = CHR ''u'' \<or> c = CHR ''U''"
  ultimately show "tolower_c c = CHR ''u''"
    by (auto simp: tolower_c_def)
qed

lemma strtol_digits_value:
  "list_all is_xdigit ds \<Longrightarrow>
   strtol_digits acc ds = acc * 16 ^ length ds + int (numeral_value 16 ds)"
proof (induction ds arbitrary: acc)
  case Nil
  then show ?case by simp
next
  case (Cons c cs)
  then obtain d where d: "xdigit_val c = Some d"
    by (auto simp: is_xdigit_def)
  with Cons show ?case
    by (simp add: algebra_simps)
qed

lemma strtol16_hex:
  assumes "list_all is_xdigit ds"
  shows "strtol16 ds = min LONG_MAX (int (hex_value ds))"
proof -
  have sp: "dropWhile isspace_c ds = ds"
    using assms by (cases ds) (auto simp: xdigit_not_space)
  have sg: "strtol_sign ds = (False, ds)"
    using assms by (cases ds) (auto simp: strtol_sign_def)
  have ox: "strtol_0x ds = ds"
    using assms by (auto simp: strtol_0x_def split: list.splits)
  show ?thesis
    using assms by (simp add: strtol16_def sp sg ox strtol_digits_value hex_value_def)
qed

lemma skip_u_plus_hex:
  assumes "list_all is_xdigit ds"
  shows "skip_u_plus ds = ds"
    and "skip_u_plus (CHR ''U'' # ds) = ds"
    and "skip_u_plus (CHR ''u'' # ds) = ds"
    and "skip_u_plus (CHR ''U'' # CHR ''+'' # ds) = ds"
    and "skip_u_plus (CHR ''u'' # CHR ''+'' # ds) = ds"
  using assms
  by (auto simp: skip_u_plus_def tolower_c_u split: list.splits)

lemma parse_codepoint_hex:
  assumes "p \<in> {'''', ''U'', ''u'', ''U+'', ''u+''}" and "list_all is_xdigit ds"
  shows "parse_codepoint (p @ ds) = word_of_int (min LONG_MAX (int (hex_value ds)))"
  using assms by (auto simp: parse_codepoint_def skip_u_plus_hex strtol16_hex)

lemma parse_codepoint_hex_small:
  assumes "p \<in> {'''', ''U'', ''u'', ''U+'', ''u+''}" and "list_all is_xdigit ds"
    and "hex_value ds < 2 ^ 32"
  shows "parse_codepoint (p @ ds) = of_nat (hex_value ds)"
    and "unat (parse_codepoint (p @ ds)) = hex_value ds"
proof -
  have "int (hex_value ds) < 2 ^ 32"
    using assms(3) by (metis of_nat_less_numeral_power_cancel_iff)
  then have m: "min LONG_MAX (int (hex_value ds)) = int (hex_value ds)"
    by (simp add: LONG_MAX_def)
  show a: "parse_codepoint (p @ ds) = of_nat (hex_value ds)"
    using parse_codepoint_hex [OF assms(1,2)] by (simp add: m)
  show "unat (parse_codepoint (p @ ds)) = hex_value ds"
    using assms(3) by (simp add: a unat_of_nat take_bit_nat_eq_self)
qed

lemma no_numeral_zero:
  assumes "no_numeral a"
  shows "parse_codepoint a = 0"
proof -
  obtain neg s2 where s: "strtol_sign (dropWhile isspace_c (skip_u_plus a)) = (neg, s2)"
    by (cases "strtol_sign (dropWhile isspace_c (skip_u_plus a))")
  from assms s have nd: "s2 = [] \<or> (\<exists>c r. s2 = c # r \<and> \<not> is_xdigit c)"
    by (auto simp: no_numeral_def split: list.splits)
  have z: "is_xdigit (CHR ''0'')"
    by (simp add: is_xdigit_def xdigit_val_def)
  from nd z have ox: "strtol_0x s2 = s2"
    by (auto simp: strtol_0x_def split: list.splits)
  from nd have "strtol_digits 0 s2 = 0"
    by (auto simp: is_xdigit_def)
  then show ?thesis
    by (simp add: parse_codepoint_def strtol16_def s ox LONG_MIN_def LONG_MAX_def)
qed

subsection \<open>The layout of the two reports\<close>

lemma emit_not_usage:
  "emit_json h c \<noteq> stdout print_usage_and_quit" "emit_text h c \<noteq> stdout print_usage_and_quit"
  by (simp_all add: emit_json_def emit_text_def print_usage_and_quit_def)

lemma emit_json_members: "emit_json h c = json_object (json_attrs h c)"
  by (simp add: emit_json_def json_object_def json_attrs_def json_member_def)

lemma emit_text_lines: "emit_text h c = concat (map text_line (text_attrs h c))"
  by (simp add: emit_text_def text_attrs_def text_line_def)

lemma digit_char_not_newline: "d < 10 \<Longrightarrow> digit_char d \<noteq> CHR ''\<newline>''"
proof
  assume d: "d < 10" and "digit_char d = CHR ''\<newline>''"
  then have "(of_char (digit_char d) :: nat) = 10" by simp
  with d show False by (simp add: digit_char_def)
qed

lemma show_nat_no_newline: "CHR ''\<newline>'' \<notin> set (show_nat n)"
proof (induction n rule: show_nat.induct)
  case (1 n)
  show ?case
  proof (cases "n < 10")
    case True
    then show ?thesis
      by (subst show_nat.simps) (simp add: digit_char_not_newline [symmetric])
  next
    case False
    with 1 show ?thesis
      by (subst show_nat.simps) (simp add: digit_char_not_newline [symmetric])
  qed
qed

lemma printf_d_no_newline: "CHR ''\<newline>'' \<notin> set (printf_d x)"
  by (simp add: printf_d_def show_nat_no_newline)

lemma true_false_no_newline: "CHR ''\<newline>'' \<notin> set (true_false x)"
  by (simp add: true_false_def)

lemma text_attrs_no_newline:
  "list_all (\<lambda>kv. CHR ''\<newline>'' \<notin> set (fst kv) \<and> CHR ''\<newline>'' \<notin> set (snd kv)) (text_attrs h c)"
  by (simp add: text_attrs_def printf_d_no_newline)

lemma json_object_no_newline: "CHR ''\<newline>'' \<notin> set (json_object (json_attrs h c))"
  by (simp add: json_object_def json_attrs_def json_member_def printf_d_no_newline
      true_false_no_newline)

lemma emit_json_not_text: "emit_json h c \<noteq> emit_text h c'"
  by (simp add: emit_json_def emit_text_def)

subsection \<open>The query engine\<close>

lemma isValid_uint:
  "isValid cp = (uint cp \<le> 0x10FFFF \<and> \<not> (0xD800 \<le> uint cp \<and> uint cp \<le> 0xDFFF))"
  by (simp add: isValid_def word_le_def)

lemma sint_nonneg_32:
  fixes cp :: "32 word"
  assumes "uint cp < 2 ^ 31"
  shows "sint cp = uint cp"
proof -
  have "- (2 ^ 31) \<le> (0 :: int)"
    by simp
  then have "- (2 ^ 31) \<le> uint cp"
    using uint_ge_0 [of cp] by (rule order_trans)
  then have "signed_take_bit 31 (uint cp) = uint cp"
    using assms by (rule signed_take_bit_int_eq_self)
  then show ?thesis
    by (simp add: sint_uint)
qed

lemma sint_neg_32:
  fixes cp :: "32 word"
  assumes "2 ^ 31 \<le> uint cp"
  shows "sint cp < 0"
proof -
  have "signed_take_bit 31 (uint cp) \<le> uint cp - 2 ^ Suc 31"
    using assms by (rule signed_take_bit_int_less_eq)
  then have a: "signed_take_bit 31 (uint cp) \<le> uint cp - 4294967296"
    by simp
  have b: "uint cp < 4294967296"
    using uint_bounded [of cp] by simp
  have c: "sint cp = signed_take_bit 31 (uint cp)"
    by (simp add: sint_uint)
  from a b c show ?thesis
    by linarith
qed

lemma isValid_sint:
  "isValid cp =
     (0 \<le> sint cp \<and> sint cp \<le> 0x10FFFF \<and> \<not> (0xD800 \<le> sint cp \<and> sint cp \<le> 0xDFFF))"
proof (cases "uint cp < 2 ^ 31")
  case True
  then show ?thesis
    by (simp add: isValid_uint sint_nonneg_32)
next
  case False
  then have "sint cp < 0" "\<not> uint cp \<le> 0x10FFFF"
    by (simp_all add: sint_neg_32)
  then show ?thesis
    by (simp add: isValid_uint)
qed

lemma bsearch_le: "lo \<le> hi \<Longrightarrow> bsearch tbl cp lo hi \<le> hi"
proof (induction tbl cp lo hi rule: bsearch.induct)
  case (1 tbl cp lo hi)
  show ?case
  proof (cases "lo < hi")
    case True
    then have m: "lo \<le> (lo + hi) div 2" "(lo + hi) div 2 + 1 \<le> hi"
      by simp_all
    from True m 1(1) [OF True refl _ m(2)] 1(2) [OF True refl _ m(1)] show ?thesis
      by (subst bsearch.simps) (auto simp: Let_def)
  next
    case False
    with 1 show ?thesis
      by (subst bsearch.simps) simp
  qed
qed

lemma bsearch_in_table: "bsearch tbl cp 0 (length tbl) \<le> length tbl"
  by (simp add: bsearch_le)

section \<open>The claims\<close>

subsection \<open>Numerals on the command line\<close>

text \<open>
  Claim C1, as stated: a code point argument may be a plain decimal numeral, a plain
  hexadecimal numeral or a hexadecimal numeral after \<^verbatim>\<open>U+\<close> or \<^verbatim>\<open>u\<close>, each yielding the
  numerically corresponding code point. It fails for decimal numerals: \<^verbatim>\<open>strtol\<close> is
  called with base 16, so \<^verbatim>\<open>65\<close> is read as \<open>0x65 = 101\<close> and the report is the one
  of U+0065, not of U+0041.
\<close>

theorem decimal_numeral_counterexample:
  "dec_value ''65'' = 65 \<and> unat (parse_codepoint ''65'') = 101 \<and>
   main sample_engine [''unicode'', ''65''] =
     \<lparr>stdout = emit_text sample_engine 101, exit_status = 0\<rparr> \<and>
   emit_text sample_engine 101 \<noteq> emit_text sample_engine 65"
  by code_simp

text \<open>
  Claim C1, amended: a code point argument is a hexadecimal numeral, plain or after
  \<^verbatim>\<open>U\<close>, \<^verbatim>\<open>u\<close>, \<^verbatim>\<open>U+\<close> or \<^verbatim>\<open>u+\<close>, and yields the code point of its hexadecimal
  value (for a value below \<open>2 ^ 32\<close>, which every code point is); a plain numeral of
  decimal digits is read in base 16 as well. There is no decimal notation.
\<close>

theorem numerals_are_hexadecimal:
  assumes "p \<in> {'''', ''U'', ''u'', ''U+'', ''u+''}" and "list_all is_xdigit ds"
    and "hex_value ds < 2 ^ 32"
    and "codepoint_args argv \<noteq> []" and "last (codepoint_args argv) = p @ ds"
  shows "unat (parse_codepoint (p @ ds)) = hex_value ds \<and>
         main h argv =
           \<lparr>stdout =
              (if ''--json'' \<in> set (tl argv) then emit_json h (of_nat (hex_value ds))
               else emit_text h (of_nat (hex_value ds))),
            exit_status = 0\<rparr>"
  using assms parse_codepoint_hex_small [OF assms(1,2,3)]
  by (simp only: main_eq if_False simp_thms)

text \<open>The theorem at \<^verbatim>\<open>65\<close>, \<^verbatim>\<open>1f600\<close> and \<^verbatim>\<open>--json U+1F600\<close>.\<close>

theorem numerals_are_hexadecimal_witness:
  "unat (parse_codepoint ''65'') = hex_value ''65'' \<and> hex_value ''65'' = 101 \<and>
   main sample_engine [''unicode'', ''65''] =
     \<lparr>stdout = emit_text sample_engine 101, exit_status = 0\<rparr> \<and>
   main sample_engine [''unicode'', ''1f600''] =
     \<lparr>stdout = emit_text sample_engine 0x1F600, exit_status = 0\<rparr> \<and>
   main sample_engine [''unicode'', ''--json'', ''U+1F600''] =
     \<lparr>stdout = emit_json sample_engine 0x1F600, exit_status = 0\<rparr>"
proof -
  have v: "hex_value ''65'' = 101" "hex_value ''1f600'' = 0x1F600" "hex_value ''1F600'' = 0x1F600"
    by (simp_all add: hex_value_def xdigit_val_def)
  have a: "codepoint_args [''unicode'', ''65''] = [''65'']"
    "codepoint_args [''unicode'', ''1f600''] = [''1f600'']"
    "codepoint_args [''unicode'', ''--json'', ''U+1F600''] = [''U+1F600'']"
    by (simp_all add: codepoint_args_def is_option_def)
  have "unat (parse_codepoint ''65'') = hex_value ''65'' \<and>
      main sample_engine [''unicode'', ''65''] =
        \<lparr>stdout = emit_text sample_engine 101, exit_status = 0\<rparr>"
    using numerals_are_hexadecimal [of "''''" "''65''" "[''unicode'', ''65'']" sample_engine]
    by (simp add: v a is_xdigit_def xdigit_val_def)
  moreover have "main sample_engine [''unicode'', ''1f600''] =
        \<lparr>stdout = emit_text sample_engine 0x1F600, exit_status = 0\<rparr>"
    using numerals_are_hexadecimal [of "''''" "''1f600''" "[''unicode'', ''1f600'']" sample_engine]
    by (simp add: v a is_xdigit_def xdigit_val_def)
  moreover have "main sample_engine [''unicode'', ''--json'', ''U+1F600''] =
        \<lparr>stdout = emit_json sample_engine 0x1F600, exit_status = 0\<rparr>"
    using numerals_are_hexadecimal [of "''U+''" "''1F600''" "[''unicode'', ''--json'', ''U+1F600'']" sample_engine]
    by (simp add: v a is_xdigit_def xdigit_val_def)
  ultimately show ?thesis
    using v by blast
qed

subsection \<open>Arguments that are no numeral\<close>

text \<open>
  Claim C2, as stated: an argument that is not a numeral in any accepted notation makes the
  front end print the usage message and exit with a non-zero status, without calling the
  engine. It fails: the result of \<^verbatim>\<open>strtol\<close> is never checked (its end pointer is
  \<^verbatim>\<open>NULL\<close>), so \<^verbatim>\<open>zzz\<close> is read as 0, the engine is queried for U+0000, the report is
  printed and the exit status is 0.
\<close>

theorem unparseable_numeral_counterexample:
  "\<not> is_xdigit CHR ''z'' \<and>
   main sample_engine [''unicode'', ''zzz''] =
     \<lparr>stdout = emit_text sample_engine 0, exit_status = 0\<rparr> \<and>
   stdout (main sample_engine [''unicode'', ''zzz'']) \<noteq> stdout print_usage_and_quit \<and>
   exit_status (main sample_engine [''unicode'', ''zzz'']) = 0"
  by code_simp

text \<open>
  Claim C2, amended: the front end rejects no code point argument, whatever its text. Once
  an argument that is not an option is supplied, the exit status is 0 and the output is a
  report, never the usage message; when the argument holds no numeral where \<^verbatim>\<open>strtol\<close>
  looks for one, the report is the engine's for code point 0.
\<close>

theorem unparseable_numeral_reported:
  assumes "codepoint_args argv \<noteq> []"
  shows "exit_status (main h argv) = 0 \<and>
         stdout (main h argv) \<noteq> stdout print_usage_and_quit \<and>
         (no_numeral (last (codepoint_args argv)) \<longrightarrow>
            main h argv =
              \<lparr>stdout = (if ''--json'' \<in> set (tl argv) then emit_json h 0 else emit_text h 0),
               exit_status = 0\<rparr>)"
  using assms by (simp add: main_eq emit_not_usage no_numeral_zero)

text \<open>The theorem at \<^verbatim>\<open>unicode --json U+zzz\<close>.\<close>

theorem unparseable_numeral_reported_witness:
  "codepoint_args [''unicode'', ''--json'', ''U+zzz''] \<noteq> [] \<and>
   no_numeral ''U+zzz'' \<and>
   main sample_engine [''unicode'', ''--json'', ''U+zzz''] =
     \<lparr>stdout = emit_json sample_engine 0, exit_status = 0\<rparr> \<and>
   stdout (main sample_engine [''unicode'', ''--json'', ''U+zzz'']) \<noteq> stdout print_usage_and_quit"
proof -
  have a: "codepoint_args [''unicode'', ''--json'', ''U+zzz''] = [''U+zzz'']"
    by (simp add: codepoint_args_def is_option_def)
  have n: "no_numeral ''U+zzz''"
    by code_simp
  show ?thesis
    using unparseable_numeral_reported [of "[''unicode'', ''--json'', ''U+zzz'']" sample_engine]
    by (simp add: a n emit_not_usage)
qed

subsection \<open>Exit status and the usage message\<close>

text \<open>
  Claim C3. When no code point argument is supplied (no argument at all, or only arguments
  that start with a dash), the program prints the usage message and exits with status 1;
  when some argument does not start with a dash, the program exits with status 0.
\<close>

theorem exit_status_by_argument:
  "(list_all is_option (tl argv) \<longrightarrow> main h argv = print_usage_and_quit) \<and>
   (list_ex (\<lambda>a. \<not> is_option a) (tl argv) \<longrightarrow> exit_status (main h argv) = 0) \<and>
   stdout print_usage_and_quit = ''usage: unicode [--json] codepoint\<newline>'' \<and>
   exit_status print_usage_and_quit = 1"
  by (simp add: main_eq codepoint_args_empty_iff codepoint_args_nonempty_iff [symmetric]
      print_usage_and_quit_def)

text \<open>
  The theorem at three invocations: no argument, two options, and an option with a code
  point.
\<close>

theorem exit_status_by_argument_witness:
  "list_all is_option (tl [''unicode'']) \<and>
   main sample_engine [''unicode''] = print_usage_and_quit \<and>
   list_all is_option (tl [''unicode'', ''--json'', ''-v'']) \<and>
   main sample_engine [''unicode'', ''--json'', ''-v''] = print_usage_and_quit \<and>
   list_ex (\<lambda>a. \<not> is_option a) (tl [''unicode'', ''--json'', ''41'']) \<and>
   exit_status (main sample_engine [''unicode'', ''--json'', ''41'']) = 0"
  using exit_status_by_argument [of "[''unicode'']" sample_engine]
    exit_status_by_argument [of "[''unicode'', ''--json'', ''-v'']" sample_engine]
    exit_status_by_argument [of "[''unicode'', ''--json'', ''41'']" sample_engine]
  by (simp add: is_option_def)

subsection \<open>The U+ notation\<close>

text \<open>
  Claim C4, as stated: for every argument that begins with \<^verbatim>\<open>U\<close> or \<^verbatim>\<open>u\<close>, with or
  without a \<^verbatim>\<open>+\<close> after it, the rest is read as hexadecimal digits and the code point of
  their value is queried. It fails for digits whose value does not fit the 32-bit code
  point: line 81 converts the \<^verbatim>\<open>long\<close> that \<^verbatim>\<open>strtol\<close> returns to \<^verbatim>\<open>codepoint\<close>, which
  keeps the low 32 bits, so \<^verbatim>\<open>U+100000041\<close> queries U+0041 and the run is that of
  \<^verbatim>\<open>U+41\<close>.
\<close>

theorem u_prefix_overflow_counterexample:
  "list_all is_xdigit ''100000041'' \<and>
   hex_value ''100000041'' = 0x100000041 \<and>
   unat (parse_codepoint ''U+100000041'') = 0x41 \<and>
   unat (parse_codepoint ''U+100000041'') \<noteq> hex_value ''100000041'' \<and>
   main sample_engine [''unicode'', ''U+100000041''] =
     \<lparr>stdout = emit_text sample_engine 0x41, exit_status = 0\<rparr> \<and>
   main sample_engine [''unicode'', ''U+100000041''] = main sample_engine [''unicode'', ''U+41'']"
proof -
  have x: "list_all is_xdigit ''100000041''"
    by (simp add: is_xdigit_def xdigit_val_def)
  have v: "hex_value ''100000041'' = 0x100000041"
    by (simp add: hex_value_def xdigit_val_def)
  have p: "parse_codepoint ''U+100000041'' = 0x41" "parse_codepoint ''U+41'' = 0x41"
    by code_simp+
  have a: "codepoint_args [''unicode'', ''U+100000041''] = [''U+100000041'']"
    "codepoint_args [''unicode'', ''U+41''] = [''U+41'']"
    by (simp_all add: codepoint_args_def is_option_def)
  have m: "main sample_engine [''unicode'', ''U+100000041''] =
      \<lparr>stdout = emit_text sample_engine 0x41, exit_status = 0\<rparr>"
    "main sample_engine [''unicode'', ''U+41''] =
      \<lparr>stdout = emit_text sample_engine 0x41, exit_status = 0\<rparr>"
    by (simp_all add: main_eq a p)
  have u: "unat (parse_codepoint ''U+100000041'') = 0x41"
    by (simp add: p)
  from x v u m show ?thesis
    by simp
qed

text \<open>
  Claim C4, amended: for an argument that begins with \<^verbatim>\<open>U\<close> or \<^verbatim>\<open>u\<close>, with or without a
  \<^verbatim>\<open>+\<close> after it, and continues with hexadecimal digits whose value is below \<open>2 ^ 32\<close>,
  the front end queries the code point whose value is that of the digits: the outcome is
  the report for that code point.
\<close>

theorem u_prefix_is_hexadecimal:
  assumes "u = CHR ''U'' \<or> u = CHR ''u''" and "list_all is_xdigit ds"
    and "hex_value ds < 2 ^ 32"
    and "codepoint_args argv \<noteq> []"
    and "last (codepoint_args argv) = u # ds \<or> last (codepoint_args argv) = u # CHR ''+'' # ds"
  shows "unat (parse_codepoint (u # ds)) = hex_value ds \<and>
         unat (parse_codepoint (u # CHR ''+'' # ds)) = hex_value ds \<and>
         main h argv =
           \<lparr>stdout =
              (if ''--json'' \<in> set (tl argv) then emit_json h (of_nat (hex_value ds))
               else emit_text h (of_nat (hex_value ds))),
            exit_status = 0\<rparr>"
proof -
  have p1: "[u] \<in> {'''', ''U'', ''u'', ''U+'', ''u+''}" and p2: "[u, CHR ''+''] \<in> {'''', ''U'', ''u'', ''U+'', ''u+''}"
    using assms(1) by auto
  note a = parse_codepoint_hex_small [OF p1 assms(2,3)] and b = parse_codepoint_hex_small [OF p2 assms(2,3)]
  from a b have "parse_codepoint (last (codepoint_args argv)) = of_nat (hex_value ds)"
    using assms(5) by auto
  with a b assms(4) show ?thesis
    by (simp add: main_eq)
qed

text \<open>The theorem at \<^verbatim>\<open>U+0041\<close>, \<^verbatim>\<open>u+41\<close> and \<^verbatim>\<open>U41\<close>, which all query U+0041.\<close>

theorem u_prefix_is_hexadecimal_witness:
  "unat (parse_codepoint ''U+0041'') = 0x41 \<and> unat (parse_codepoint ''u+41'') = 0x41 \<and>
   unat (parse_codepoint ''U41'') = 0x41 \<and>
   main sample_engine [''unicode'', ''U+0041''] =
     \<lparr>stdout = emit_text sample_engine 0x41, exit_status = 0\<rparr> \<and>
   main sample_engine [''unicode'', ''u+41''] =
     \<lparr>stdout = emit_text sample_engine 0x41, exit_status = 0\<rparr> \<and>
   main sample_engine [''unicode'', ''U41''] =
     \<lparr>stdout = emit_text sample_engine 0x41, exit_status = 0\<rparr>"
proof -
  have v: "hex_value ''0041'' = 0x41" "hex_value ''41'' = 0x41"
    by (simp_all add: hex_value_def xdigit_val_def)
  have a: "codepoint_args [''unicode'', ''U+0041''] = [''U+0041'']"
    "codepoint_args [''unicode'', ''u+41''] = [''u+41'']"
    "codepoint_args [''unicode'', ''U41''] = [''U41'']"
    by (simp_all add: codepoint_args_def is_option_def)
  have "unat (parse_codepoint ''U+0041'') = 0x41 \<and>
      main sample_engine [''unicode'', ''U+0041''] =
        \<lparr>stdout = emit_text sample_engine 0x41, exit_status = 0\<rparr>"
    using u_prefix_is_hexadecimal [of "CHR ''U''" "''0041''" "[''unicode'', ''U+0041'']" sample_engine]
    by (simp add: v a is_xdigit_def xdigit_val_def)
  moreover have "unat (parse_codepoint ''u+41'') = 0x41 \<and>
      main sample_engine [''unicode'', ''u+41''] =
        \<lparr>stdout = emit_text sample_engine 0x41, exit_status = 0\<rparr>"
    using u_prefix_is_hexadecimal [of "CHR ''u''" "''41''" "[''unicode'', ''u+41'']" sample_engine]
    by (simp add: v a is_xdigit_def xdigit_val_def)
  moreover have "unat (parse_codepoint ''U41'') = 0x41 \<and>
      main sample_engine [''unicode'', ''U41''] =
        \<lparr>stdout = emit_text sample_engine 0x41, exit_status = 0\<rparr>"
    using u_prefix_is_hexadecimal [of "CHR ''U''" "''41''" "[''unicode'', ''U41'']" sample_engine]
    by (simp add: v a is_xdigit_def xdigit_val_def)
  ultimately show ?thesis
    by blast
qed

subsection \<open>The two output layouts\<close>

text \<open>
  Claim C5. When a code point argument is supplied, the output is the single JSON object
  if and only if \<^verbatim>\<open>--json\<close> is among the arguments, at any position, and the text report
  otherwise. The JSON object is the comma-separated members within one pair of braces and
  holds no newline; the text report is one line per attribute.
\<close>

theorem json_option_selects_layout:
  assumes "codepoint_args argv \<noteq> []" and "c = parse_codepoint (last (codepoint_args argv))"
  shows "stdout (main h argv) = (if ''--json'' \<in> set (tl argv) then emit_json h c else emit_text h c) \<and>
         (stdout (main h argv) = emit_json h c) = (''--json'' \<in> set (tl argv)) \<and>
         (stdout (main h argv) = emit_text h c) = (''--json'' \<notin> set (tl argv)) \<and>
         emit_json h c = json_object (json_attrs h c) \<and>
         CHR ''\<newline>'' \<notin> set (json_object (json_attrs h c)) \<and>
         emit_text h c = concat (map text_line (text_attrs h c)) \<and>
         list_all (\<lambda>kv. CHR ''\<newline>'' \<notin> set (fst kv) \<and> CHR ''\<newline>'' \<notin> set (snd kv))
           (text_attrs h c)"
proof -
  have "stdout (main h argv) = (if ''--json'' \<in> set (tl argv) then emit_json h c else emit_text h c)"
    using assms by (simp add: main_eq)
  moreover have "emit_text h c \<noteq> emit_json h c"
    using emit_json_not_text [of h c c] by simp
  ultimately show ?thesis
    using emit_json_members [of h c] emit_text_lines [of h c] text_attrs_no_newline [of h c]
      json_object_no_newline [of h c] emit_json_not_text [of h c c]
    by simp
qed

text \<open>The theorem at \<^verbatim>\<open>unicode 41 --json\<close> and at \<^verbatim>\<open>unicode 41\<close>.\<close>

theorem json_option_selects_layout_witness:
  "codepoint_args [''unicode'', ''41'', ''--json''] \<noteq> [] \<and>
   stdout (main sample_engine [''unicode'', ''41'', ''--json'']) = emit_json sample_engine 0x41 \<and>
   codepoint_args [''unicode'', ''41''] \<noteq> [] \<and>
   stdout (main sample_engine [''unicode'', ''41'']) = emit_text sample_engine 0x41 \<and>
   stdout (main sample_engine [''unicode'', ''41'']) \<noteq> emit_json sample_engine 0x41"
proof -
  have p: "parse_codepoint ''41'' = 0x41"
    by code_simp
  have a: "codepoint_args [''unicode'', ''41'', ''--json''] = [''41'']"
    "codepoint_args [''unicode'', ''41''] = [''41'']"
    by (simp_all add: codepoint_args_def is_option_def)
  note j = json_option_selects_layout [of "[''unicode'', ''41'', ''--json'']" "0x41" sample_engine]
    and t = json_option_selects_layout [of "[''unicode'', ''41'']" "0x41" sample_engine]
  have "stdout (main sample_engine [''unicode'', ''41'', ''--json'']) = emit_json sample_engine 0x41"
    using j [THEN conjunct1] by (simp add: a p)
  moreover have "stdout (main sample_engine [''unicode'', ''41'']) = emit_text sample_engine 0x41"
    using t [THEN conjunct1] by (simp add: a p)
  moreover have "stdout (main sample_engine [''unicode'', ''41'']) \<noteq> emit_json sample_engine 0x41"
    using t [THEN conjunct2, THEN conjunct1] by (simp add: a p)
  ultimately show ?thesis
    using a by simp
qed

subsection \<open>Validity of a code point\<close>

text \<open>
  Claim C6. \<open>isValid cp\<close> holds if and only if \<open>0 \<le> cp \<le> 0x10FFFF\<close> and \<open>cp\<close> is not a
  surrogate, whether the 32-bit input is read as signed or as unsigned; it is false on
  \<open>0xD800..0xDFFF\<close> and above \<open>0x10FFFF\<close>. The engine's \<^verbatim>\<open>codepoint_isvalid\<close> is non-zero
  exactly then.
\<close>

theorem isValid_range:
  "isValid cp =
     (0 \<le> sint cp \<and> sint cp \<le> 0x10FFFF \<and> \<not> (0xD800 \<le> sint cp \<and> sint cp \<le> 0xDFFF)) \<and>
   isValid cp = (uint cp \<le> 0x10FFFF \<and> \<not> (0xD800 \<le> uint cp \<and> uint cp \<le> 0xDFFF)) \<and>
   (0xD800 \<le> cp \<and> cp \<le> 0xDFFF \<longrightarrow> \<not> isValid cp) \<and>
   (0x10FFFF < cp \<longrightarrow> \<not> isValid cp) \<and>
   (codepoint_isvalid (engine relevant T) cp \<noteq> 0) = isValid cp"
  using isValid_sint [of cp] isValid_uint [of cp]
  by (auto simp: isValid_def engine_def)

text \<open>The theorem at a surrogate and just above the last code point, with the neighbours.\<close>

theorem isValid_range_witness:
  "(0xD800 :: codepoint) \<le> 0xDB00 \<and> (0xDB00 :: codepoint) \<le> 0xDFFF \<and> \<not> isValid 0xDB00 \<and>
   (0x10FFFF :: codepoint) < 0x110000 \<and> \<not> isValid 0x110000 \<and>
   isValid 0x10FFFF \<and> isValid 0xD7FF \<and> isValid 0xE000 \<and> isValid 0 \<and> \<not> isValid (- 1)"
proof -
  have v: "isValid 0x10FFFF \<and> isValid 0xD7FF \<and> isValid 0xE000 \<and> isValid 0 \<and> \<not> isValid (- 1)"
    by code_simp
  have r: "(0xD800 :: codepoint) \<le> 0xDB00" "(0xDB00 :: codepoint) \<le> 0xDFFF"
    "(0x10FFFF :: codepoint) < 0x110000"
    by simp_all
  from r isValid_range [of "0xDB00"] isValid_range [of "0x110000"]
  have "\<not> isValid 0xDB00" "\<not> isValid 0x110000"
    by blast+
  with v r show ?thesis
    by blast
qed

subsection \<open>Case mappings without a mapping\<close>

text \<open>
  Claim C7. The case mappings are total: they return a code point for every 32-bit input,
  the binary search terminates and stays inside the table. A code point with no defined
  mapping in a direction (no uniform delta that applies, no entry of the exception table)
  is returned unchanged; so is every code point that no range covers and the exception
  table does not list.
\<close>

theorem case_mapping_identity:
  "(\<not> has_case_mapping relevant T To_lower cp \<longrightarrow> toLower relevant T cp = cp) \<and>
   (\<not> has_case_mapping relevant T To_upper cp \<longrightarrow> toUpper relevant T cp = cp) \<and>
   (\<not> has_case_mapping relevant T To_title cp \<longrightarrow> toTitle relevant T cp = cp) \<and>
   (classify (range_table T) cp = None \<and> map_of (exception_table T) cp = None \<longrightarrow>
      toLower relevant T cp = cp \<and> toUpper relevant T cp = cp \<and> toTitle relevant T cp = cp) \<and>
   bsearch (range_table T) cp 0 (length (range_table T)) \<le> length (range_table T) \<and>
   codepoint_tolower (engine relevant T) cp = toLower relevant T cp \<and>
   codepoint_toupper (engine relevant T) cp = toUpper relevant T cp \<and>
   codepoint_totitle (engine relevant T) cp = toTitle relevant T cp"
  by (auto simp: has_case_mapping_def toLower_def toUpper_def toTitle_def case_map_def
      uniform_delta_def engine_def bsearch_in_table split: option.splits)

text \<open>
  The theorem at the digit 7 and at \<open>0x110000\<close>, next to three code points that do have a
  mapping.
\<close>

theorem case_mapping_identity_witness:
  "\<not> has_case_mapping sample_relevant sample_tables To_lower 0x37 \<and>
   \<not> has_case_mapping sample_relevant sample_tables To_upper 0x37 \<and>
   \<not> has_case_mapping sample_relevant sample_tables To_title 0x37 \<and>
   toLower sample_relevant sample_tables 0x37 = 0x37 \<and>
   toUpper sample_relevant sample_tables 0x37 = 0x37 \<and>
   toTitle sample_relevant sample_tables 0x37 = 0x37 \<and>
   classify (range_table sample_tables) 0x110000 = None \<and>
   map_of (exception_table sample_tables) 0x110000 = None \<and>
   toLower sample_relevant sample_tables 0x110000 = 0x110000 \<and>
   toUpper sample_relevant sample_tables 0x61 = 0x41 \<and>
   toLower sample_relevant sample_tables 0x41 = 0x61 \<and>
   toLower sample_relevant sample_tables 0x1C5 = 0x1C6"
proof -
  have h: "\<not> has_case_mapping sample_relevant sample_tables To_lower 0x37"
    "\<not> has_case_mapping sample_relevant sample_tables To_upper 0x37"
    "\<not> has_case_mapping sample_relevant sample_tables To_title 0x37"
    "classify (range_table sample_tables) 0x110000 = None"
    "map_of (exception_table sample_tables) 0x110000 = None"
    by code_simp+
  have m: "toUpper sample_relevant sample_tables 0x61 = 0x41"
    "toLower sample_relevant sample_tables 0x41 = 0x61"
    "toLower sample_relevant sample_tables 0x1C5 = 0x1C6"
    by code_simp+
  note a = case_mapping_identity [of sample_relevant sample_tables "0x37"]
    and b = case_mapping_identity [of sample_relevant sample_tables "0x110000"]
  from a b h m show ?thesis
    by simp
qed

subsection \<open>Options other than --json\<close>

text \<open>
  Claim C8. An argument that starts with a dash and is not exactly \<^verbatim>\<open>--json\<close> is ignored:
  the invocation behaves as the one without that argument. It is not taken for the code
  point, it does not switch the JSON output on, and it causes no exit of its own.
\<close>

theorem other_options_ignored:
  assumes "pre \<noteq> []" and "is_option a" and "a \<noteq> ''--json''"
  shows "main h (pre @ a # post) = main h (pre @ post) \<and>
         codepoint_args (pre @ a # post) = codepoint_args (pre @ post) \<and>
         (''--json'' \<in> set (tl (pre @ a # post))) = (''--json'' \<in> set (tl (pre @ post)))"
proof -
  have c: "codepoint_args (pre @ a # post) = codepoint_args (pre @ post)"
    using assms by (simp add: codepoint_args_def)
  have j: "(''--json'' \<in> set (tl (pre @ a # post))) = (''--json'' \<in> set (tl (pre @ post)))"
    using assms by auto
  show ?thesis
    by (simp only: main_eq c j)
qed

text \<open>The theorem at \<^verbatim>\<open>unicode -v 41\<close>.\<close>

theorem other_options_ignored_witness:
  "[''unicode''] \<noteq> [] \<and> is_option ''-v'' \<and> ''-v'' \<noteq> ''--json'' \<and>
   main sample_engine [''unicode'', ''-v'', ''41''] = main sample_engine [''unicode'', ''41'']"
  using other_options_ignored [of "[''unicode'']" "''-v''" sample_engine "[''41'']"]
  by (simp add: is_option_def)

subsection \<open>Several code point arguments\<close>

text \<open>
  Claim C9. With more than one argument that is not an option, the program queries the
  last of them; an earlier one is discarded without a trace: the invocation behaves as the
  one without it.
\<close>

theorem last_codepoint_argument_wins:
  "(1 < length (codepoint_args argv) \<longrightarrow>
      main h argv =
        \<lparr>stdout =
           (if ''--json'' \<in> set (tl argv)
            then emit_json h (parse_codepoint (last (codepoint_args argv)))
            else emit_text h (parse_codepoint (last (codepoint_args argv)))),
         exit_status = 0\<rparr>) \<and>
   (pre \<noteq> [] \<and> \<not> is_option b \<and> list_ex (\<lambda>a. \<not> is_option a) post \<longrightarrow>
      main h (pre @ b # post) = main h (pre @ post))"
proof -
  have "main h (pre @ b # post) = main h (pre @ post)"
    if "pre \<noteq> []" and "\<not> is_option b" and "list_ex (\<lambda>a. \<not> is_option a) post"
  proof -
    from that(3) have ne: "filter (\<lambda>a. \<not> is_option a) post \<noteq> []"
      by (simp add: filter_empty_conv list_ex_iff)
    with that have "codepoint_args (pre @ b # post) \<noteq> []" "codepoint_args (pre @ post) \<noteq> []"
      "last (codepoint_args (pre @ b # post)) = last (codepoint_args (pre @ post))"
      by (simp_all add: codepoint_args_def)
    moreover have "(''--json'' \<in> set (tl (pre @ b # post))) = (''--json'' \<in> set (tl (pre @ post)))"
      using that is_option_json by auto
    ultimately show ?thesis
      by (simp only: main_eq if_False)
  qed
  moreover have "codepoint_args argv \<noteq> []" if "1 < length (codepoint_args argv)"
    using that by auto
  ultimately show ?thesis
    by (simp add: main_eq)
qed

text \<open>The theorem at \<^verbatim>\<open>unicode 41 --json 61\<close>, which reports U+0061.\<close>

theorem last_codepoint_argument_wins_witness:
  "1 < length (codepoint_args [''unicode'', ''41'', ''--json'', ''61'']) \<and>
   main sample_engine [''unicode'', ''41'', ''--json'', ''61''] =
     \<lparr>stdout = emit_json sample_engine 0x61, exit_status = 0\<rparr> \<and>
   main sample_engine [''unicode'', ''41'', ''--json'', ''61''] =
     main sample_engine [''unicode'', ''--json'', ''61'']"
proof -
  have p: "parse_codepoint ''61'' = 0x61"
    by code_simp
  have a: "codepoint_args [''unicode'', ''41'', ''--json'', ''61''] = [''41'', ''61'']"
    by (simp add: codepoint_args_def is_option_def)
  note w = last_codepoint_argument_wins [of "[''unicode'', ''41'', ''--json'', ''61'']" sample_engine
      "[''unicode'']" "''41''" "[''--json'', ''61'']"]
  have "main sample_engine [''unicode'', ''41'', ''--json'', ''61''] =
          \<lparr>stdout = emit_json sample_engine 0x61, exit_status = 0\<rparr>"
    using w [THEN conjunct1] by (simp add: a p)
  moreover have "main sample_engine [''unicode'', ''41'', ''--json'', ''61''] =
          main sample_engine [''unicode'', ''--json'', ''61'']"
    using w [THEN conjunct2] by (simp add: is_option_def)
  moreover have "1 < length (codepoint_args [''unicode'', ''41'', ''--json'', ''61''])"
    by (simp add: a)
  ultimately show ?thesis
    by blast
qed

subsection \<open>Attributes of the JSON report only\<close>

text \<open>
  Claim C10. The JSON report has twenty attributes and the text report sixteen. The four
  that only the JSON report has are \<^verbatim>\<open>isLineBreak\<close>, \<^verbatim>\<open>isConnectingChar\<close>,
  \<^verbatim>\<open>isFormattingChar\<close> and \<^verbatim>\<open>isCombiningChar\<close>, each a bit of \<^verbatim>\<open>codepoint_toflags\<close>;
  the text report is the JSON report's attributes without these four, in the same order.
\<close>

theorem json_only_attributes:
  "map fst (json_attrs h c) =
     [''toLowerCase'', ''toUpperCase'', ''toTitleCase'', ''toDigit'', ''isLowerCase'',
      ''isUpperCase'', ''isTitleCase'', ''isDigit'', ''isSpaceChar'', ''isLineBreak'',
      ''isISOControl'', ''isPunctuation'', ''isConnectingChar'', ''isFormattingChar'',
      ''isCombiningChar'', ''isEmoji'', ''isPrintable'', ''isAlpha'', ''isAlphaNumeric'',
      ''isValidCodePoint''] \<and>
   length (json_attrs h c) = 20 \<and> length (text_attrs h c) = 16 \<and>
   map fst (text_attrs h c) = filter (\<lambda>k. k \<notin> set flag_attrs) (map fst (json_attrs h c)) \<and>
   set flag_attrs \<subseteq> set (map fst (json_attrs h c)) \<and>
   set flag_attrs \<inter> set (map fst (text_attrs h c)) = {} \<and>
   map_of (json_attrs h c) ''isLineBreak'' =
     Some (true_false (codepoint_toflags h c AND CODEPOINT_LINEBREAK h)) \<and>
   map_of (json_attrs h c) ''isConnectingChar'' =
     Some (true_false (codepoint_toflags h c AND CODEPOINT_CONNECTING h)) \<and>
   map_of (json_attrs h c) ''isFormattingChar'' =
     Some (true_false (codepoint_toflags h c AND CODEPOINT_FORMATTING h)) \<and>
   map_of (json_attrs h c) ''isCombiningChar'' =
     Some (true_false (codepoint_toflags h c AND CODEPOINT_COMBINING h)) \<and>
   emit_json h c = json_object (json_attrs h c) \<and>
   emit_text h c = concat (map text_line (text_attrs h c))"
proof -
  have j: "map fst (json_attrs h c) =
     [''toLowerCase'', ''toUpperCase'', ''toTitleCase'', ''toDigit'', ''isLowerCase'',
      ''isUpperCase'', ''isTitleCase'', ''isDigit'', ''isSpaceChar'', ''isLineBreak'',
      ''isISOControl'', ''isPunctuation'', ''isConnectingChar'', ''isFormattingChar'',
      ''isCombiningChar'', ''isEmoji'', ''isPrintable'', ''isAlpha'', ''isAlphaNumeric'',
      ''isValidCodePoint'']"
    by (simp add: json_attrs_def)
  have t: "map fst (text_attrs h c) =
     [''toLowerCase'', ''toUpperCase'', ''toTitleCase'', ''toDigit'', ''isLowerCase'',
      ''isUpperCase'', ''isTitleCase'', ''isDigit'', ''isSpaceChar'',
      ''isISOControl'', ''isPunctuation'', ''isEmoji'', ''isPrintable'', ''isAlpha'',
      ''isAlphaNumeric'', ''isValidCodePoint'']"
    by (simp add: text_attrs_def)
  have f: "map fst (text_attrs h c) = filter (\<lambda>k. k \<notin> set flag_attrs) (map fst (json_attrs h c))"
    unfolding j t by (simp add: flag_attrs_def)
  have s: "set flag_attrs \<subseteq> set (map fst (json_attrs h c))"
    unfolding j by (simp add: flag_attrs_def)
  have d: "set flag_attrs \<inter> set (map fst (text_attrs h c)) = {}"
    unfolding t by (simp add: flag_attrs_def)
  have l: "length (json_attrs h c) = 20" "length (text_attrs h c) = 16"
    by (simp_all add: json_attrs_def text_attrs_def)
  have m: "map_of (json_attrs h c) ''isLineBreak'' =
       Some (true_false (codepoint_toflags h c AND CODEPOINT_LINEBREAK h))"
    "map_of (json_attrs h c) ''isConnectingChar'' =
       Some (true_false (codepoint_toflags h c AND CODEPOINT_CONNECTING h))"
    "map_of (json_attrs h c) ''isFormattingChar'' =
       Some (true_false (codepoint_toflags h c AND CODEPOINT_FORMATTING h))"
    "map_of (json_attrs h c) ''isCombiningChar'' =
       Some (true_false (codepoint_toflags h c AND CODEPOINT_COMBINING h))"
    by (simp_all add: json_attrs_def)
  from j f s d l m emit_json_members [of h c] emit_text_lines [of h c] show ?thesis
    by (simp only: simp_thms)
qed

end
